theory Spec2Isabelle
  imports Complex_Main "HOL-Library.Char_ord" "HOL-Library.List_Lexorder"
begin

section \<open>Python values, errors and the log\<close>

text \<open>
  The reader module \<^verbatim>\<open>demeter_io/reader.py\<close> is embedded function by function.
  A Python exception is a value of type \<open>error\<close>; a function that may raise
  returns \<open>error + 'a\<close> with \<open>Inl\<close> for the exception.  Strings are byte strings
  (ASCII); floating-point cells are idealised as real numbers.
\<close>

datatype error =
    KeyError "string list"
  | ValueError
  | AttributeError
  | IndexError
  | UnboundLocalError string

text \<open>What the caller-supplied logger receives, one entry per call of
  \<^verbatim>\<open>log.warning\<close>, \<^verbatim>\<open>log.info\<close> or \<^verbatim>\<open>log.error\<close>.\<close>

datatype log_entry =
    WarnAllocNotProjected "string list"
  | WarnProjectedNotAlloc "string list"
  | InfoRegions nat
  | InfoMetrics nat
  | ErrorFieldsMissing
  | ErrorLogged error
  | WarnWaterMissing

subsection \<open>Strings\<close>

definition lower_char :: "char \<Rightarrow> char" where
  "lower_char c =
     (let n = (of_char c :: nat) in if 65 \<le> n \<and> n \<le> 90 then char_of (n + 32) else c)"

text \<open>\<^verbatim>\<open>s.lower()\<close> on an ASCII string.\<close>

definition lower :: "string \<Rightarrow> string" where
  "lower s = map lower_char s"

definition is_space :: "char \<Rightarrow> bool" where
  "is_space c = (let n = (of_char c :: nat) in (9 \<le> n \<and> n \<le> 13) \<or> n = 32)"

definition is_digit :: "char \<Rightarrow> bool" where
  "is_digit c = (let n = (of_char c :: nat) in 48 \<le> n \<and> n \<le> 57)"

definition digit_val :: "char \<Rightarrow> nat" where
  "digit_val c = of_char c - 48"

definition strip :: "string \<Rightarrow> string" where
  "strip s = rev (dropWhile is_space (rev (dropWhile is_space s)))"

definition digits_val :: "string \<Rightarrow> nat" where
  "digits_val ds = foldl (\<lambda>a c. 10 * a + digit_val c) 0 ds"

text \<open>
  \<^verbatim>\<open>int(s)\<close> on a string: surrounding whitespace is dropped, then an optional sign
  and a non-empty run of decimal digits; anything else raises \<^verbatim>\<open>ValueError\<close>.
\<close>

definition py_int :: "string \<Rightarrow> error + int" where
  "py_int s =
     (let t = strip s;
          neg = (t \<noteq> [] \<and> hd t = CHR ''-'');
          ds = (if t \<noteq> [] \<and> (hd t = CHR ''-'' \<or> hd t = CHR ''+'') then tl t else t)
      in if ds = [] \<or> \<not> list_all is_digit ds then Inl ValueError
         else Inr (if neg then - int (digits_val ds) else int (digits_val ds)))"

fun nat_digits :: "nat \<Rightarrow> string" where
  "nat_digits n =
     (if n < 10 then [char_of (48 + n)]
      else nat_digits (n div 10) @ [char_of (48 + n mod 10)])"

text \<open>\<^verbatim>\<open>str(n)\<close> on an integer.\<close>

definition py_str :: "int \<Rightarrow> string" where
  "py_str n = (if n < 0 then CHR ''-'' # nat_digits (nat (- n)) else nat_digits (nat n))"

subsection \<open>Array helpers of numpy and pandas\<close>

text \<open>\<^verbatim>\<open>np.unique\<close>: sort, then keep the first of each run of equal values.\<close>

definition np_unique :: "'a::linorder list \<Rightarrow> 'a list" where
  "np_unique xs = remdups_adj (sort xs)"

text \<open>\<^verbatim>\<open>Series.unique\<close>: distinct values in order of first appearance.\<close>

fun pd_unique :: "'a list \<Rightarrow> 'a list" where
  "pd_unique [] = []"
| "pd_unique (x # xs) = x # pd_unique (filter (\<lambda>y. y \<noteq> x) xs)"

text \<open>\<^verbatim>\<open>np.setdiff1d(ar1, ar2)\<close>: the sorted distinct values of \<open>ar1\<close> that are
  not in \<open>ar2\<close>.\<close>

definition setdiff1d :: "'a::linorder list \<Rightarrow> 'a list \<Rightarrow> 'a list" where
  "setdiff1d ar1 ar2 = filter (\<lambda>x. x \<notin> set ar2) (np_unique ar1)"

text \<open>\<^verbatim>\<open>xs.insert(i, x)\<close> on a Python list: a negative index counts from the
  end, and an index out of range is clipped to the nearest end.\<close>

definition py_insert :: "int \<Rightarrow> 'a \<Rightarrow> 'a list \<Rightarrow> 'a list" where
  "py_insert i x xs =
     (let n = int (length xs);
          j = (if i < 0 then max 0 (i + n) else min i n)
      in take (nat j) xs @ x # drop (nat j) xs)"

section \<open>The constraint checker\<close>

text \<open>
  \<^verbatim>\<open>_check_constraints(log_obj, allocate, actual)\<close>.  The function returns nothing;
  its effect is the list of warnings handed to the logger, which the model returns.
\<close>

definition check_constraints :: "string list \<Rightarrow> string list \<Rightarrow> log_entry list" where
  "check_constraints allocate actual =
     (let act = map lower actual;
          alloc = map lower allocate;
          act_extra = setdiff1d alloc act;
          alloc_extra = setdiff1d act alloc;
          l_act = length act_extra;
          l_alloc = length alloc_extra
      in if l_alloc > 0 \<and> l_act > 0
           then [WarnAllocNotProjected alloc_extra, WarnProjectedNotAlloc act_extra]
         else if l_alloc > 0 \<and> l_act = 0
           then [WarnAllocNotProjected alloc_extra]
         else if l_alloc = 0 \<and> l_act > 0
           then [WarnProjectedNotAlloc act_extra]
         else [])"

section \<open>The time-step selector\<close>

text \<open>
  \<^verbatim>\<open>_get_steps(df, start_step, end_step)\<close> over the column labels of \<open>df\<close>.
  The loop appends to \<open>l\<close>; only \<^verbatim>\<open>ValueError\<close> is caught, any other exception
  of the conversion leaves the function.
\<close>

fun get_steps_loop :: "string list \<Rightarrow> int \<Rightarrow> int \<Rightarrow> int list \<Rightarrow> error + int list" where
  "get_steps_loop [] start_step end_step l = Inr l"
| "get_steps_loop (i # cols) start_step end_step l =
     (case py_int i of
        Inr y \<Rightarrow>
          if start_step \<le> y \<and> y \<le> end_step
          then get_steps_loop cols start_step end_step (l @ [y])
          else get_steps_loop cols start_step end_step l
      | Inl ValueError \<Rightarrow> get_steps_loop cols start_step end_step l
      | Inl e \<Rightarrow> Inl e)"

definition get_steps :: "string list \<Rightarrow> int \<Rightarrow> int \<Rightarrow> error + int list" where
  "get_steps columns start_step end_step = get_steps_loop columns start_step end_step []"

text \<open>The words of the specification: the integer parses of the labels that parse.\<close>

definition int_parses :: "string list \<Rightarrow> int list" where
  "int_parses labels =
     List.map_filter (\<lambda>s. case py_int s of Inr y \<Rightarrow> Some y | Inl e \<Rightarrow> None) labels"

section \<open>Tables\<close>

text \<open>
  A pandas data frame: the number of rows (\<^verbatim>\<open>len(df)\<close>) and the columns with their
  labels, in header order.  In a frame read from a file every column has \<open>frame_len\<close>
  entries.
\<close>

record 'c frame =
  frame_len :: nat
  frame_cols :: "(string \<times> 'c) list"

text \<open>\<^verbatim>\<open>df.columns = [c.lower() for c in df.columns]\<close>\<close>

definition lower_columns :: "'c frame \<Rightarrow> 'c frame" where
  "lower_columns df = df\<lparr>frame_cols := map (\<lambda>(c, v). (lower c, v)) (frame_cols df)\<rparr>"

text \<open>The columns carrying a given label (several, when a label is repeated).\<close>

definition labelled :: "'c frame \<Rightarrow> string \<Rightarrow> 'c list" where
  "labelled df l = map snd (filter (\<lambda>p. fst p = l) (frame_cols df))"

text \<open>\<^verbatim>\<open>df[l]\<close> for one label: \<^verbatim>\<open>KeyError\<close> when no column has it.\<close>

definition getitem :: "'c frame \<Rightarrow> string \<Rightarrow> error + 'c list" where
  "getitem df l = (if labelled df l = [] then Inl (KeyError [l]) else Inr (labelled df l))"

text \<open>\<^verbatim>\<open>df[ls]\<close> for a list of labels: \<^verbatim>\<open>KeyError\<close> naming the labels that no
  column has.\<close>

definition getitems :: "'c frame \<Rightarrow> string list \<Rightarrow> error + 'c list" where
  "getitems df ls =
     (let missing = filter (\<lambda>l. labelled df l = []) ls
      in if missing \<noteq> [] then Inl (KeyError missing)
         else Inr (concat (map (labelled df) ls)))"

text \<open>\<^verbatim>\<open>as_matrix()\<close>: the selected columns as a two-dimensional array, given by
  its \<open>n\<close> rows.\<close>

definition as_matrix :: "nat \<Rightarrow> 'a list list \<Rightarrow> 'a list list" where
  "as_matrix n cs = map (\<lambda>i. map (\<lambda>c. c ! i) cs) [0..<n]"

section \<open>The allocation-matrix reader\<close>

text \<open>A column of an allocation table is text or numeric.\<close>

datatype column = StrCol "string list" | NumCol "real list"

datatype cell = S string | N real

fun column_cells :: "column \<Rightarrow> cell list" where
  "column_cells (StrCol ss) = map S ss"
| "column_cells (NumCol xs) = map N xs"

text \<open>
  The file as \<^verbatim>\<open>read_alloc\<close> sees it: its size in bytes (\<^verbatim>\<open>os.stat(f).st_size\<close>)
  and what \<^verbatim>\<open>pd.read_csv(f, delimiter=delim)\<close> returns or raises for a delimiter.
\<close>

record alloc_file =
  st_size :: nat
  read_csv :: "string \<Rightarrow> error + column frame"

text \<open>The shapes of the value returned; \<open>RetNone\<close> is Python's \<^verbatim>\<open>None\<close>, the value
  of a call that ends without a \<^verbatim>\<open>return\<close>.\<close>

datatype alloc_ret =
    Ret3 "string list" "string list" "cell list list"
  | Ret2 "string list" "cell list list"
  | Ret1 "cell list list"
  | RetNone

text \<open>\<^verbatim>\<open>df[col].str.lower().tolist()\<close>: the \<^verbatim>\<open>.str\<close> accessor exists on a single
  text column only.\<close>

definition str_lower_tolist :: "column list \<Rightarrow> error + string list" where
  "str_lower_tolist sel =
     (case sel of [StrCol ss] \<Rightarrow> Inr (map lower ss) | _ \<Rightarrow> Inl AttributeError)"

definition read_alloc :: "alloc_file \<Rightarrow> string \<Rightarrow> int \<Rightarrow> string \<Rightarrow> error + alloc_ret" where
  "read_alloc f lc_col output_level delim =
     (let col = lower lc_col
      in if st_size f \<noteq> 0 then
           (case read_csv f delim of
              Inl e \<Rightarrow> Inl e
            | Inr df0 \<Rightarrow>
                let df = lower_columns df0
                in (case getitem df col of
                      Inl e \<Rightarrow> Inl e
                    | Inr sel \<Rightarrow>
                       (case str_lower_tolist sel of
                          Inl e \<Rightarrow> Inl e
                        | Inr tcs \<Rightarrow>
                            let fcs = filter (\<lambda>i. i \<noteq> col) (map fst (frame_cols df))
                            in (case getitems df fcs of
                                  Inl e \<Rightarrow> Inl e
                                | Inr sub \<Rightarrow>
                                    let arr = as_matrix (frame_len df) (map column_cells sub)
                                    in if output_level = 3 then Inr (Ret3 fcs tcs arr)
                                       else if output_level = 2 then Inr (Ret2 tcs arr)
                                       else if output_level = 1 then Inr (Ret1 arr)
                                       else Inr RetNone))))
         else Inr (Ret2 [] []))"

section \<open>The projection normalizer\<close>

text \<open>
  A value that is an integer or a string: a cell of the \<^verbatim>\<open>region\<close> column (pandas
  reads a column of numerals as integers and any other as strings) and a value of the
  region reference dictionary.
\<close>

datatype pyval = PInt (int_of: int) | PStr (str_of: string)

fun pyval_str :: "pyval \<Rightarrow> string" where
  "pyval_str (PInt i) = py_str i"
| "pyval_str (PStr s) = s"

text \<open>\<^verbatim>\<open>int(v)\<close>\<close>

fun to_int :: "pyval \<Rightarrow> error + int" where
  "to_int (PInt i) = Inr i"
| "to_int (PStr s) = py_int s"

text \<open>
  The projection table after \<^verbatim>\<open>pd.read_csv(f, header=0)\<close>: the header, and for each
  row the cells of the columns \<^verbatim>\<open>region\<close>, \<^verbatim>\<open>landclass\<close> and \<^verbatim>\<open>metric_id\<close> and
  the number under every other label.  A column exists when its label is in the header.
\<close>

record gcam_row =
  region :: pyval
  landclass :: string
  metric_id :: int
  year_cell :: "string \<Rightarrow> real"

record gcam_table =
  header :: "string list"
  rows :: "gcam_row list"

text \<open>The list returned by \<^verbatim>\<open>read_gcam_file\<close>, and what the logger received.\<close>

record gcam_out =
  user_years :: "int list"
  gcam_ludata :: "real list list"
  gcam_metric :: "int list"
  gcam_landname :: "string list"
  gcam_regionnumber :: "int list"
  allreg :: "pyval list"
  allregnumber :: "int list"
  allregaez :: "int list list"
  allmetric :: "int list"
  metric_id_array :: "int list"
  logged :: "log_entry list"

text \<open>Sequencing of steps that may raise: the first exception ends the call.\<close>

definition bind_err :: "error + 'a \<Rightarrow> ('a \<Rightarrow> error + 'b) \<Rightarrow> error + 'b" where
  "bind_err m f = (case m of Inl e \<Rightarrow> Inl e | Inr x \<Rightarrow> f x)"

text \<open>\<^verbatim>\<open>Series.map(f)\<close>: \<open>f\<close> on each row from the first to the last.\<close>

fun map_err :: "('a \<Rightarrow> error + 'b) \<Rightarrow> 'a list \<Rightarrow> error + 'b list" where
  "map_err f [] = Inr []"
| "map_err f (x # xs) =
     (case f x of
        Inl e \<Rightarrow> Inl e
      | Inr y \<Rightarrow> (case map_err f xs of Inl e \<Rightarrow> Inl e | Inr ys \<Rightarrow> Inr (y # ys)))"

text \<open>\<^verbatim>\<open>gdf[label]\<close> on the projection table.\<close>

definition gcam_column :: "gcam_table \<Rightarrow> string \<Rightarrow> (gcam_row \<Rightarrow> 'a) \<Rightarrow> error + 'a list" where
  "gcam_column gdf label field =
     (if label \<in> set (header gdf) then Inr (map field (rows gdf)) else Inl (KeyError [label]))"

text \<open>Line 222: \<^verbatim>\<open>lu = {i: ix+1 for ix, i in enumerate(ids.sort_values().unique())}\<close>,
  the dictionary as the list of its items.\<close>

definition metric_lookup :: "int list \<Rightarrow> (int \<times> int) list" where
  "metric_lookup ids =
     (let u = pd_unique (sort ids) in zip u (map (\<lambda>ix. int ix + 1) [0..<length u]))"

text \<open>\<^verbatim>\<open>lu[x]\<close>\<close>

definition lu_get :: "(int \<times> int) list \<Rightarrow> int \<Rightarrow> error + int" where
  "lu_get lu x = (case map_of lu x of None \<Rightarrow> Inl (KeyError [py_str x]) | Some v \<Rightarrow> Inr v)"

text \<open>\<^verbatim>\<open>int(region_dict[x])\<close>\<close>

definition region_dict_get :: "(pyval \<rightharpoonup> pyval) \<Rightarrow> pyval \<Rightarrow> error + int" where
  "region_dict_get region_dict x =
     (case region_dict x of None \<Rightarrow> Inl (KeyError [pyval_str x]) | Some v \<Rightarrow> to_int v)"

text \<open>Lines 228 to 232: the column \<^verbatim>\<open>gcam_regionnumber\<close> from the column
  \<^verbatim>\<open>region\<close>.\<close>

definition region_numbers :: "pyval list \<Rightarrow> (pyval \<rightharpoonup> pyval) \<Rightarrow> error + int list" where
  "region_numbers regs region_dict =
     (let ck_reg = pd_unique regs
      in if length ck_reg = 1 \<and> hd ck_reg = PInt 1
         then Inr (replicate (length regs) 1)
         else map_err (region_dict_get region_dict) regs)"

text \<open>\<^verbatim>\<open>np.array(l)\<close> followed by \<^verbatim>\<open>sort()\<close> on a list of region values: an array
  of integers when all are integers, otherwise an array of strings into which the
  integers are converted.\<close>

definition np_sorted_regions :: "pyval list \<Rightarrow> pyval list" where
  "np_sorted_regions vs =
     (if list_all is_PInt vs then map PInt (sort (map int_of vs))
      else map PStr (sort (map pyval_str vs)))"

text \<open>\<^verbatim>\<open>gdf.groupby(keys)[vals].apply(list)\<close>: for each distinct key in ascending
  order, the values of its rows in row order.\<close>

definition groupby_lists :: "int list \<Rightarrow> int list \<Rightarrow> int list list" where
  "groupby_lists keys vals =
     map (\<lambda>k. map snd (filter (\<lambda>p. fst p = k) (zip keys vals))) (np_unique keys)"

text \<open>\<^verbatim>\<open>np.where(arr == x)[0][0]\<close>\<close>

definition first_index :: "'a list \<Rightarrow> 'a \<Rightarrow> error + nat" where
  "first_index xs x =
     (if x \<in> set xs then Inr (length (takeWhile (\<lambda>y. y \<noteq> x) xs)) else Inl IndexError)"

definition read_gcam_file ::
  "gcam_table \<Rightarrow> string list \<Rightarrow> int \<Rightarrow> int \<Rightarrow> string \<Rightarrow> (pyval \<rightharpoonup> pyval) \<Rightarrow> int \<Rightarrow> real
     \<Rightarrow> error + gcam_out" where
  "read_gcam_file gdf gcam_landclasses start_yr end_yr scenario region_dict agg_level
       area_factor =
     bind_err (gcam_column gdf ''landclass'' landclass) (\<lambda>landclasses.
     let warnings = check_constraints gcam_landclasses landclasses;
         hdr = (if ''scenario'' \<in> set (header gdf) then header gdf
                else header gdf @ [''scenario''])
     in
     bind_err (get_steps hdr start_yr end_yr) (\<lambda>years.
     let target_years = map py_str years;
         missing = filter (\<lambda>l. l \<notin> set hdr) target_years
     in
     if missing \<noteq> [] then Inl (KeyError missing) else
     let ludata = map (\<lambda>r. map (\<lambda>l. year_cell r l * area_factor) target_years) (rows gdf);
         landname = map lower landclasses
     in
     bind_err (gcam_column gdf ''metric_id'' metric_id) (\<lambda>ids.
     let lu = metric_lookup ids
     in
     bind_err (map_err (lu_get lu) ids) (\<lambda>metric.
     bind_err (gcam_column gdf ''region'' region) (\<lambda>regs.
     bind_err (region_numbers regs region_dict) (\<lambda>regionnumber.
     let l_allreg = pd_unique regs @ (if agg_level = 2 then [PStr ''Taiwan''] else []);
         l_allregnumber = pd_unique regionnumber @ (if agg_level = 2 then [30] else []);
         sorted_reg = np_sorted_regions l_allreg;
         sorted_regnumber = sort l_allregnumber;
         metrics = np_unique metric;
         xdf = groupby_lists regionnumber metric;
         regaez = map np_unique xdf;
         infos = [InfoRegions (length sorted_regnumber), InfoMetrics (length metrics)]
     in
     bind_err
       (if agg_level = 2
        then bind_err (first_index sorted_reg (PStr ''Taiwan''))
               (\<lambda>p. Inr (py_insert (int p - 1) [] regaez))
        else Inr regaez) (\<lambda>regaez'.
     Inr \<lparr>user_years = years, gcam_ludata = ludata, gcam_metric = metric,
          gcam_landname = landname, gcam_regionnumber = regionnumber,
          allreg = sorted_reg, allregnumber = sorted_regnumber, allregaez = regaez',
          allmetric = metrics, metric_id_array = ids,
          logged = warnings @ infos\<rparr>)))))))"

text \<open>A small projection table and region reference, used to run the model: two rows,
  one for region USA (number 1) and one for region China (number 11).\<close>

definition example_table :: gcam_table where
  "example_table =
     \<lparr>header = [''region'', ''landclass'', ''metric_id'', ''2005''],
      rows = [\<lparr>region = PStr ''USA'', landclass = ''Forest'', metric_id = 5,
                year_cell = (\<lambda>l. 2)\<rparr>,
              \<lparr>region = PStr ''China'', landclass = ''Crops'', metric_id = 7,
                year_cell = (\<lambda>l. 3)\<rparr>]\<rparr>"


definition example_regions :: "pyval \<rightharpoonup> pyval" where
  "example_regions = [PStr ''USA'' \<mapsto> PInt 1, PStr ''China'' \<mapsto> PStr ''11'']"

text \<open>
  The per-region lists as claim C3 words them: the placeholder inserted at index
  \<open>position_of(special_case_region) - 1\<close>, the position being that of region number 30
  in the sorted region numbers.
\<close>

definition spec_allregaez :: "int list \<Rightarrow> int list list \<Rightarrow> int list list" where
  "spec_allregaez regnumbers regaez =
     py_insert (int (length (takeWhile (\<lambda>n. n \<noteq> 30) regnumbers)) - 1) [] regaez"

section \<open>The base-layer normalizer\<close>

text \<open>
  The configuration object \<open>c\<close> as far as \<^verbatim>\<open>read_base\<close> reads it (\<^verbatim>\<open>c.pkey\<close>,
  \<^verbatim>\<open>c.agg_level\<close>, \<^verbatim>\<open>c.metric\<close>, \<^verbatim>\<open>c.model\<close>, \<^verbatim>\<open>c.resin\<close>); the file
  \<^verbatim>\<open>c.first_mod_file\<close> enters as the numeric table that \<^verbatim>\<open>pd.read_csv\<close> returns.
\<close>

record config =
  c_pkey :: string
  c_agg_level :: int
  c_metric :: string
  c_model :: string
  c_resin :: real

text \<open>The list returned by \<^verbatim>\<open>read_base\<close>; \<open>spat_metric_region\<close> may be \<^verbatim>\<open>None\<close>.\<close>

record base_out =
  spat_ludata :: "real list list"
  spat_water :: "real list"
  spat_coords :: "real list list"
  spat_metric_region :: "real list option"
  spat_grid_id :: "real list"
  spat_metric :: "real list"
  spat_region :: "real list"
  ngrids :: nat
  cellarea :: "real list"
  celltrunk :: "real list"

text \<open>\<^verbatim>\<open>df[l].as_matrix()\<close> for one label of a table whose labels are distinct: the
  column as a one-dimensional array.\<close>

definition series :: "'c frame \<Rightarrow> string \<Rightarrow> error + 'c" where
  "series df l = (case labelled df l of [] \<Rightarrow> Inl (KeyError [l]) | col # _ \<Rightarrow> Inr col)"

text \<open>\<^verbatim>\<open>np.radians\<close>\<close>

definition radians :: "real \<Rightarrow> real" where
  "radians x = x * pi / 180"

text \<open>A step that may raise, with the log written so far: an exception ends the call
  and leaves the log as it is.\<close>

definition with_log ::
  "log_entry list \<Rightarrow> error + 'a \<Rightarrow> ('a \<Rightarrow> log_entry list \<times> (error + 'b))
     \<Rightarrow> log_entry list \<times> (error + 'b)" where
  "with_log lg m f = (case m of Inl e \<Rightarrow> (lg, Inl e) | Inr x \<Rightarrow> f x)"

text \<open>Lines 299 to 304: the land-cover array, or no binding of \<open>spat_ludata\<close> and two
  error records when the selection raises \<^verbatim>\<open>KeyError\<close>.\<close>

definition base_ludata ::
  "real list frame \<Rightarrow> string list \<Rightarrow> log_entry list \<times> (error + real list list option)" where
  "base_ludata df spat_landclasses =
     (case getitems df spat_landclasses of
        Inr sel \<Rightarrow> ([], Inr (Some (as_matrix (frame_len df) sel)))
      | Inl (KeyError k) \<Rightarrow> ([ErrorFieldsMissing, ErrorLogged (KeyError k)], Inr None)
      | Inl e \<Rightarrow> ([], Inl e))"

text \<open>Lines 307 to 310: the coordinates under the first naming, else under the second.\<close>

definition base_coords :: "real list frame \<Rightarrow> error + real list list" where
  "base_coords df =
     (case getitems df [''latcoord'', ''loncoord''] of
        Inr sel \<Rightarrow> Inr (as_matrix (frame_len df) sel)
      | Inl (KeyError k) \<Rightarrow>
          bind_err (getitems df [''latitude'', ''longitude''])
            (\<lambda>sel. Inr (as_matrix (frame_len df) sel))
      | Inl e \<Rightarrow> Inl e)"

text \<open>Lines 329 to 343: region and metric per cell; neither name is bound for an
  aggregation level other than 1 and 2.\<close>

definition base_region_metric ::
  "real list frame \<Rightarrow> config \<Rightarrow> error + (real list \<times> real list) option" where
  "base_region_metric df c =
     (if c_agg_level c = 2 then
        bind_err (series df ''region_id'') (\<lambda>region_col.
        bind_err (series df (lower (c_metric c) @ ''_id'')) (\<lambda>metric_col.
        Inr (Some (region_col, metric_col))))
      else if c_agg_level c = 1 then
        bind_err (series df ''region_id'') (\<lambda>spat_r.
        bind_err (series df (lower (c_metric c) @ ''_id'')) (\<lambda>metric_col.
        Inr (Some (replicate (length spat_r) 1, metric_col))))
      else Inr None)"

text \<open>Lines 321 to 326: the water column, or zeros and a warning when the table has
  none.\<close>

definition base_water ::
  "real list frame \<Rightarrow> real list \<Rightarrow> log_entry list \<times> (error + real list)" where
  "base_water df grid_id =
     (case series df ''water'' of
        Inr col \<Rightarrow> ([], Inr col)
      | Inl (KeyError k) \<Rightarrow> ([WarnWaterMissing], Inr (replicate (length grid_id) 0))
      | Inl e \<Rightarrow> ([], Inl e))"

text \<open>Lines 345 to 363: the remap of region 30, the cell area, the cell fraction, the
  area correction and the returned list.  Reading a name that was never bound raises
  \<^verbatim>\<open>UnboundLocalError\<close>.\<close>

definition base_derive ::
  "config \<Rightarrow> nat \<Rightarrow> real list list option \<Rightarrow> real list list \<Rightarrow> real list option
     \<Rightarrow> real list \<Rightarrow> real list \<Rightarrow> (real list \<times> real list) option \<Rightarrow> error + base_out" where
  "base_derive c n ludata coords metric_region grid_id water region_metric =
     (let region_metric' =
            (if lower (c_model c) = ''gcam'' \<and> c_agg_level c = 2
             then map_option (\<lambda>(r, m). (map (\<lambda>x. if x = 30 then 11 else x) r, m)) region_metric
             else region_metric);
          area = map (\<lambda>row. cos (radians (row ! 0)) * (111.32 * 110.57) * (c_resin c)\<^sup>2) coords
      in
      (case ludata of
         None \<Rightarrow> Inl (UnboundLocalError ''spat_ludata'')
       | Some raw \<Rightarrow>
          let trunk = map2 (\<lambda>s w. (s + w) / (c_resin c)\<^sup>2) (map sum_list raw) water;
              corrected = map2 (\<lambda>row a. map (\<lambda>x. x / (c_resin c)\<^sup>2 * a) row) raw area
          in
          (case region_metric' of
             None \<Rightarrow> Inl (UnboundLocalError ''spat_metric'')
           | Some (region_col, metric_col) \<Rightarrow>
               Inr \<lparr>spat_ludata = corrected, spat_water = water, spat_coords = coords,
                    spat_metric_region = metric_region, spat_grid_id = grid_id,
                    spat_metric = metric_col, spat_region = region_col, ngrids = n,
                    cellarea = area, celltrunk = trunk\<rparr>)))"

definition read_base ::
  "real list frame \<Rightarrow> config \<Rightarrow> string list \<Rightarrow> log_entry list \<times> (error + base_out)" where
  "read_base df0 c spat_landclasses =
     (let df = lower_columns df0;
          (log1, ludata_try) = base_ludata df spat_landclasses
      in
      with_log log1 ludata_try (\<lambda>ludata.
      with_log log1 (base_coords df) (\<lambda>coords.
      let metric_region = (case series df ''regaez'' of Inl e \<Rightarrow> None | Inr col \<Rightarrow> Some col)
      in
      with_log log1 (series df (c_pkey c)) (\<lambda>grid_id.
      let (log_water, water_try) = base_water df grid_id;
          log2 = log1 @ log_water
      in
      with_log log2 water_try (\<lambda>water.
      with_log log2 (base_region_metric df c) (\<lambda>region_metric.
      (log2, base_derive c (frame_len df) ludata coords metric_region grid_id water
               region_metric)))))))"

text \<open>A base-layer table and configuration, used to run the model: two cells on the
  equator at one-degree resolution, with the land-cover column \<^verbatim>\<open>forest\<close>.\<close>

definition example_base :: "real list frame" where
  "example_base =
     \<lparr>frame_len = 2,
      frame_cols = [(''FID'', [1, 2]), (''Latcoord'', [0, 0]), (''Loncoord'', [10, 11]),
                    (''region_id'', [30, 4]), (''basin_id'', [7, 7]),
                    (''Forest'', [1 / 2, 1 / 4]), (''water'', [1 / 4, 0])]\<rparr>"

definition example_config :: config where
  "example_config =
     \<lparr>c_pkey = ''fid'', c_agg_level = 2, c_metric = ''Basin'', c_model = ''GCAM'',
      c_resin = 1\<rparr>"

section \<open>Properties\<close>

lemma set_np_unique: "set (np_unique xs) = set xs"
  by (simp add: np_unique_def)

lemma set_setdiff1d: "set (setdiff1d ar1 ar2) = set ar1 - set ar2"
  by (auto simp: setdiff1d_def set_np_unique)

lemma py_int_error: "py_int s = Inl e \<Longrightarrow> e = ValueError"
  by (auto simp: py_int_def Let_def split: if_splits)

lemma get_steps_loop_eq:
  "get_steps_loop cols s e l =
     Inr (l @ filter (\<lambda>y. s \<le> y \<and> y \<le> e) (int_parses cols))"
proof (induction cols arbitrary: l)
  case Nil
  show ?case by (simp add: int_parses_def)
next
  case (Cons i cols)
  show ?case
  proof (cases "py_int i")
    case (Inl err)
    then have "err = ValueError" by (rule py_int_error)
    with Inl Cons show ?thesis
      by (simp add: int_parses_def)
  next
    case (Inr y)
    with Cons show ?thesis
      by (simp add: int_parses_def)
  qed
qed

subsection \<open>Time-step selector\<close>

text \<open>The example of the specification, evaluated on the model.\<close>

lemma get_steps_example:
  "get_steps [''a'', ''1999'', ''2005'', ''x'', ''2010''] 2000 2010 = Inr [2005, 2010]"
  by code_simp

text \<open>
  Claim C6.  For every sequence of column labels and every pair (start, end), the
  time-step selector returns exactly the integer parses of the labels that parse and lie
  in the inclusive range, in the labels' left-to-right order; a label that does not parse
  is skipped and never makes the call fail; and when start is greater than end the result
  is the empty list, not an error.
\<close>

theorem get_steps_selects:
  "get_steps labels start_step end_step =
     Inr (filter (\<lambda>y. start_step \<le> y \<and> y \<le> end_step) (int_parses labels))
   \<and> (end_step < start_step \<longrightarrow> get_steps labels start_step end_step = Inr [])"
proof -
  have eq: "get_steps labels start_step end_step =
      Inr (filter (\<lambda>y. start_step \<le> y \<and> y \<le> end_step) (int_parses labels))"
    by (simp add: get_steps_def get_steps_loop_eq)
  have "end_step < start_step \<Longrightarrow>
      filter (\<lambda>y. start_step \<le> y \<and> y \<le> end_step) (int_parses labels) = []"
    by (auto simp: filter_empty_conv)
  with eq show ?thesis by simp
qed

theorem get_steps_selects_witness:
  "(2010::int) < 2020 \<and> get_steps [''a'', ''2005'', '' 2015 ''] 2020 2010 = Inr []"
  using get_steps_selects [of "[''a'', ''2005'', '' 2015 '']" 2020 2010] by simp

subsection \<open>Constraint checker\<close>

text \<open>
  Claim C5.  For every pair of land-class lists the constraint checker is total (it has
  no failing branch), and it emits at least one warning exactly when the symmetric
  difference of the two lower-cased sets is not empty: one warning for each one-sided
  difference that is not empty, hence two when both are, and none when the sets agree.
  Each warning lists the corresponding one-sided difference.
\<close>

theorem check_constraints_warns:
  "(check_constraints allocate actual \<noteq> [] \<longleftrightarrow>
      (set (map lower allocate) - set (map lower actual))
        \<union> (set (map lower actual) - set (map lower allocate)) \<noteq> {})
   \<and> check_constraints allocate actual =
       (if set (map lower actual) - set (map lower allocate) \<noteq> {}
        then [WarnAllocNotProjected (setdiff1d (map lower actual) (map lower allocate))]
        else [])
       @ (if set (map lower allocate) - set (map lower actual) \<noteq> {}
          then [WarnProjectedNotAlloc (setdiff1d (map lower allocate) (map lower actual))]
          else [])
   \<and> set (setdiff1d (map lower actual) (map lower allocate)) =
       set (map lower actual) - set (map lower allocate)
   \<and> set (setdiff1d (map lower allocate) (map lower actual)) =
       set (map lower allocate) - set (map lower actual)"
proof -
  let ?act = "map lower actual" and ?alloc = "map lower allocate"
  have a: "setdiff1d ?act ?alloc = [] \<longleftrightarrow> set ?act - set ?alloc = {}"
    using set_setdiff1d [of ?act ?alloc] by (metis set_empty)
  have b: "setdiff1d ?alloc ?act = [] \<longleftrightarrow> set ?alloc - set ?act = {}"
    using set_setdiff1d [of ?alloc ?act] by (metis set_empty)
  have c: "check_constraints allocate actual =
       (if set ?act - set ?alloc \<noteq> {}
        then [WarnAllocNotProjected (setdiff1d ?act ?alloc)] else [])
       @ (if set ?alloc - set ?act \<noteq> {}
          then [WarnProjectedNotAlloc (setdiff1d ?alloc ?act)] else [])"
    unfolding check_constraints_def Let_def a [symmetric] b [symmetric] by simp
  have d: "check_constraints allocate actual \<noteq> [] \<longleftrightarrow>
      (set ?alloc - set ?act) \<union> (set ?act - set ?alloc) \<noteq> {}"
    unfolding c by simp
  show ?thesis
    using c d set_setdiff1d [of ?act ?alloc] set_setdiff1d [of ?alloc ?act] by blast
qed

theorem check_constraints_warns_witness:
  "check_constraints [''Forest'', ''crops''] [''FOREST'', ''Urban''] =
     [WarnAllocNotProjected [''urban''], WarnProjectedNotAlloc [''crops'']]
   \<and> check_constraints [''Forest''] [''FOREST''] = []"
proof -
  have l: "map lower [''Forest'', ''crops''] = [''forest'', ''crops'']"
      "map lower [''FOREST'', ''Urban''] = [''forest'', ''urban'']"
      "map lower [''Forest''] = [''forest'']" "map lower [''FOREST''] = [''forest'']"
    by code_simp+
  have s: "setdiff1d [''forest'', ''urban''] [''forest'', ''crops''] = [''urban'']"
      "setdiff1d [''forest'', ''crops''] [''forest'', ''urban''] = [''crops'']"
    by code_simp+
  show ?thesis
    using check_constraints_warns [of "[''Forest'', ''crops'']" "[''FOREST'', ''Urban'']"]
      check_constraints_warns [of "[''Forest'']" "[''FOREST'']"]
    unfolding l s by simp
qed

subsection \<open>Allocation-matrix reader\<close>

text \<open>
  Claim C8.  For every zero-byte allocation file, every target column name, every
  delimiter and every output level, the allocation-matrix reader returns an empty class
  list and an empty array, and does not fail; the file is not parsed.
\<close>

theorem read_alloc_empty_file:
  "st_size f = 0 \<Longrightarrow> read_alloc f lc_col output_level delim = Inr (Ret2 [] [])"
  by (simp add: read_alloc_def)

theorem read_alloc_empty_file_witness:
  "st_size \<lparr>st_size = 0, read_csv = (\<lambda>d. Inl ValueError)\<rparr> = 0
   \<and> read_alloc \<lparr>st_size = 0, read_csv = (\<lambda>d. Inl ValueError)\<rparr> ''Landclass'' 7 '','' =
       Inr (Ret2 [] [])"
  using read_alloc_empty_file
    [of "\<lparr>st_size = 0, read_csv = (\<lambda>d. Inl ValueError)\<rparr>" "''Landclass''" 7 "'',''"]
  by simp






subsection \<open>Projection normalizer\<close>

lemma set_pd_unique: "set (pd_unique xs) = set xs"
  by (induction xs rule: pd_unique.induct) auto

lemma distinct_pd_unique: "distinct (pd_unique xs)"
  by (induction xs rule: pd_unique.induct) (auto simp: set_pd_unique)

lemma sorted_pd_unique: "sorted xs \<Longrightarrow> sorted (pd_unique xs)"
  by (induction xs rule: pd_unique.induct) (auto simp: set_pd_unique sorted_wrt_filter)

lemma length_pd_unique: "length (pd_unique xs) = card (set xs)"
  using distinct_card [OF distinct_pd_unique, of xs] by (simp add: set_pd_unique)

lemma distinct_remdups_adj_sorted: "sorted xs \<Longrightarrow> distinct (remdups_adj xs)"
  by (induction xs rule: remdups_adj.induct) auto

lemma length_np_unique: "length (np_unique xs) = card (set xs)"
proof -
  have "distinct (np_unique xs)"
    by (simp add: np_unique_def distinct_remdups_adj_sorted)
  from distinct_card [OF this] show ?thesis by (simp add: set_np_unique)
qed

lemma bind_err_Inr_iff: "bind_err m f = Inr y \<longleftrightarrow> (\<exists>x. m = Inr x \<and> f x = Inr y)"
  by (cases m) (simp_all add: bind_err_def)

lemma map_err_Inr_iff: "map_err f xs = Inr ys \<longleftrightarrow> map f xs = map Inr ys"
proof (induction xs arbitrary: ys)
  case Nil
  show ?case by auto
next
  case (Cons x xs)
  show ?case
  proof (cases "f x")
    case (Inl e)
    then show ?thesis by (cases ys) auto
  next
    case (Inr y)
    show ?thesis
    proof (cases "map_err f xs")
      case (Inl e)
      with Cons.IH have "\<And>zs. map f xs \<noteq> map Inr zs" by auto
      with Inl Inr show ?thesis by (cases ys) auto
    next
      case r: (Inr zs)
      with Cons.IH have "\<And>zs'. map f xs = map Inr zs' \<longleftrightarrow> zs = zs'" by auto
      with r Inr show ?thesis by (cases ys) auto
    qed
  qed
qed



lemma metric_lookup_index:
  assumes "x \<in> set ids"
  shows "\<exists>i < card (set ids). pd_unique (sort ids) ! i = x
           \<and> map_of (metric_lookup ids) x = Some (int i + 1)"
proof -
  let ?u = "pd_unique (sort ids)"
  have len: "length ?u = card (set ids)" by (simp add: length_pd_unique)
  have "x \<in> set ?u" using assms by (simp add: set_pd_unique)
  then obtain i where i: "i < length ?u" "?u ! i = x" by (auto simp: in_set_conv_nth)
  have "map_of (zip ?u (map (\<lambda>ix. int ix + 1) [0..<length ?u])) (?u ! i)
      = Some (map (\<lambda>ix. int ix + 1) [0..<length ?u] ! i)"
    by (rule map_of_zip_nth) (simp_all add: distinct_pd_unique i)
  with i have "map_of (metric_lookup ids) x = Some (int i + 1)"
    by (simp add: metric_lookup_def Let_def)
  with i len show ?thesis by auto
qed

lemma metric_lookup_dom: "dom (map_of (metric_lookup ids)) = set ids"
proof -
  have "length (pd_unique (sort ids)) = length (map (\<lambda>ix. int ix + 1) [0..<length (pd_unique (sort ids))])"
    by simp
  then have "dom (map_of (metric_lookup ids)) = set (pd_unique (sort ids))"
    unfolding metric_lookup_def Let_def by (rule dom_map_of_zip)
  then show ?thesis by (simp add: set_pd_unique)
qed

lemma metric_lookup_nth:
  assumes "i < card (set ids)"
  shows "map_of (metric_lookup ids) (pd_unique (sort ids) ! i) = Some (int i + 1)"
proof -
  let ?u = "pd_unique (sort ids)"
  have len: "length ?u = card (set ids)" by (simp add: length_pd_unique)
  have "map_of (zip ?u (map (\<lambda>ix. int ix + 1) [0..<length ?u])) (?u ! i)
      = Some (map (\<lambda>ix. int ix + 1) [0..<length ?u] ! i)"
    by (rule map_of_zip_nth) (simp_all add: distinct_pd_unique assms len)
  with assms len show ?thesis by (simp add: metric_lookup_def Let_def)
qed

lemma pd_unique_sort_strict: "sorted_wrt (<) (pd_unique (sort ids))"
  by (simp add: strict_sorted_iff sorted_pd_unique distinct_pd_unique)

lemma metric_lookup_bij:
  "bij_betw (\<lambda>x. the (map_of (metric_lookup ids) x)) (set ids) {1..int (card (set ids))}"
proof -
  let ?u = "pd_unique (sort ids)" and ?N = "card (set ids)"
  let ?f = "\<lambda>x. the (map_of (metric_lookup ids) x)"
  have inj: "inj_on ?f (set ids)"
  proof (rule inj_onI)
    fix x y
    assume "x \<in> set ids" "y \<in> set ids" and eq: "?f x = ?f y"
    then obtain i j where "?u ! i = x" "?f x = int i + 1" "?u ! j = y" "?f y = int j + 1"
      using metric_lookup_index [of x ids] metric_lookup_index [of y ids] by fastforce
    with eq show "x = y" by simp
  qed
  have img: "?f ` set ids = {1..int ?N}"
  proof (rule set_eqI, rule iffI)
    fix k assume "k \<in> ?f ` set ids"
    then obtain x where "x \<in> set ids" "k = ?f x" by blast
    with metric_lookup_index [of x ids] show "k \<in> {1..int ?N}" by fastforce
  next
    fix k assume k: "k \<in> {1..int ?N}"
    then have lt: "nat (k - 1) < ?N" by auto
    then have "nat (k - 1) < length ?u" by (simp add: length_pd_unique)
    then have "?u ! nat (k - 1) \<in> set ?u" by (rule nth_mem)
    then have mem: "?u ! nat (k - 1) \<in> set ids" by (simp add: set_pd_unique)
    from metric_lookup_nth [OF lt] k have "?f (?u ! nat (k - 1)) = k" by simp
    with mem show "k \<in> ?f ` set ids" by (metis imageI)
  qed
  from inj img show ?thesis by (simp add: bij_betw_def)
qed

lemma metric_lookup_mono:
  assumes "a \<in> set ids" "b \<in> set ids"
  shows "a < b \<longleftrightarrow> the (map_of (metric_lookup ids) a) < the (map_of (metric_lookup ids) b)"
proof -
  let ?u = "pd_unique (sort ids)"
  have len: "length ?u = card (set ids)" by (simp add: length_pd_unique)
  from assms obtain i j where
    i: "i < length ?u" "?u ! i = a" "the (map_of (metric_lookup ids) a) = int i + 1" and
    j: "j < length ?u" "?u ! j = b" "the (map_of (metric_lookup ids) b) = int j + 1"
    using metric_lookup_index [of a ids] metric_lookup_index [of b ids] len by fastforce
  have strict: "\<And>m n. m < n \<Longrightarrow> n < length ?u \<Longrightarrow> ?u ! m < ?u ! n"
    using pd_unique_sort_strict [of ids] by (simp add: sorted_wrt_iff_nth_less)
  have "a < b \<longleftrightarrow> i < j"
  proof
    assume "a < b"
    show "i < j"
    proof (rule ccontr)
      assume "\<not> i < j"
      then consider "i = j" | "j < i" by linarith
      then show False
      proof cases
        case 1 with i j \<open>a < b\<close> show False by simp
      next
        case 2 from strict [OF 2 i(1)] i j \<open>a < b\<close> show False by simp
      qed
    qed
  next
    assume "i < j" from strict [OF this j(1)] i j show "a < b" by simp
  qed
  moreover have "i < j \<longleftrightarrow> int i + 1 < int j + 1" by linarith
  ultimately show ?thesis using i(3) j(3) by simp
qed

lemma map_err_lu_get:
  "map_err (lu_get (metric_lookup ids)) ids
     = Inr (map (\<lambda>x. the (map_of (metric_lookup ids) x)) ids)"
proof -
  have "lu_get (metric_lookup ids) x = Inr (the (map_of (metric_lookup ids) x))"
    if "x \<in> set ids" for x
    using metric_lookup_index [OF that] by (auto simp: lu_get_def)
  then show ?thesis by (simp add: map_err_Inr_iff)
qed

lemma read_gcam_file_InrD:
  assumes "read_gcam_file gdf lcs s e sc rd agg af = Inr out"
  shows "map_err (lu_get (metric_lookup (map metric_id (rows gdf)))) (map metric_id (rows gdf))
           = Inr (gcam_metric out)"
    and "region_numbers (map region (rows gdf)) rd = Inr (gcam_regionnumber out)"
    and "allregnumber out = sort (pd_unique (gcam_regionnumber out) @ (if agg = 2 then [30] else []))"
    and "allreg out = np_sorted_regions
           (pd_unique (map region (rows gdf)) @ (if agg = 2 then [PStr ''Taiwan''] else []))"
    and "agg \<noteq> 2 \<Longrightarrow> allregaez out =
           map np_unique (groupby_lists (gcam_regionnumber out) (gcam_metric out))"
    and "agg = 2 \<Longrightarrow> \<exists>p. first_index (allreg out) (PStr ''Taiwan'') = Inr p
           \<and> allregaez out = py_insert (int p - 1) []
                (map np_unique (groupby_lists (gcam_regionnumber out) (gcam_metric out)))"
  using assms
  by (auto simp: read_gcam_file_def bind_err_Inr_iff Let_def gcam_column_def
      split: if_splits)

text \<open>
  Claim C1.  For every projection table, the metric-index dictionary built by the
  projection normalizer is defined exactly on the raw metric identifiers of the table, is
  a bijection from them onto 1..N with N the number of distinct identifiers, gives the
  smaller index to the smaller identifier, and, whenever the normalizer returns, every
  row's sequential metric value is the index of that row's raw identifier.
\<close>

theorem metric_index_map:
  fixes gdf :: gcam_table
  defines "ids \<equiv> map metric_id (rows gdf)"
  defines "lu \<equiv> map_of (metric_lookup (map metric_id (rows gdf)))"
  shows "dom lu = set ids
    \<and> bij_betw (\<lambda>x. the (lu x)) (set ids) {1..int (card (set ids))}
    \<and> (\<forall>a \<in> set ids. \<forall>b \<in> set ids. a < b \<longleftrightarrow> the (lu a) < the (lu b))
    \<and> (\<forall>out. read_gcam_file gdf lcs start_yr end_yr scenario region_dict agg_level area_factor
           = Inr out \<longrightarrow> gcam_metric out = map (\<lambda>x. the (lu x)) ids)"
proof -
  have d: "dom lu = set ids"
    unfolding lu_def ids_def by (rule metric_lookup_dom)
  have b: "bij_betw (\<lambda>x. the (lu x)) (set ids) {1..int (card (set ids))}"
    unfolding lu_def ids_def by (rule metric_lookup_bij)
  have m: "\<forall>a \<in> set ids. \<forall>b \<in> set ids. a < b \<longleftrightarrow> the (lu a) < the (lu b)"
    unfolding lu_def ids_def using metric_lookup_mono by blast
  have r: "gcam_metric out = map (\<lambda>x. the (lu x)) ids"
    if "read_gcam_file gdf lcs start_yr end_yr scenario region_dict agg_level area_factor
          = Inr out" for out
    using read_gcam_file_InrD(1) [OF that] map_err_lu_get [of "map metric_id (rows gdf)"]
    unfolding lu_def ids_def by simp
  from d b m r show ?thesis by blast
qed

theorem metric_index_map_witness:
  "\<not> isl (read_gcam_file example_table [''forest''] 2000 2010 ''ref'' example_regions 1 1000)
   \<and> map_sum id gcam_metric
        (read_gcam_file example_table [''forest''] 2000 2010 ''ref'' example_regions 1 1000)
      = Inr [1, 2]
   \<and> map_sum id metric_id_array
        (read_gcam_file example_table [''forest''] 2000 2010 ''ref'' example_regions 1 1000)
      = Inr [5, 7]"
proof -
  let ?r = "read_gcam_file example_table [''forest''] 2000 2010 ''ref'' example_regions 1 1000"
  have ok: "\<not> isl ?r" by code_simp
  then obtain out where out: "?r = Inr out" by (cases ?r) auto
  have ids: "map metric_id (rows example_table) = [5, 7]" by (simp add: example_table_def)
  have "map (\<lambda>x. the (map_of (metric_lookup [5, 7]) x)) [5, 7] = [1, 2]" by code_simp
  with metric_index_map [of example_table "[''forest'']" 2000 2010 "''ref''"
      example_regions 1 1000] out ids
  have "gcam_metric out = [1, 2]" by simp
  moreover have "map_sum id metric_id_array ?r = Inr [5, 7]" by code_simp
  ultimately show ?thesis using ok out by simp
qed






lemma length_groupby_lists: "length (groupby_lists keys vals) = card (set keys)"
  by (simp add: groupby_lists_def length_np_unique)

lemma length_py_insert: "length (py_insert i x xs) = Suc (length xs)"
  by (simp add: py_insert_def Let_def)

lemma set_py_insert: "x \<in> set (py_insert i x xs)"
  by (simp add: py_insert_def Let_def)

text \<open>
  Claim C9.  Whenever the projection normalizer returns, the list of per-region
  metric-index lists is as long as the array of unique region numbers: one list for each
  distinct region number of the rows, and one more (the placeholder, matching the
  appended number 30) when the aggregation level is 2.
\<close>

theorem allregaez_length:
  assumes "read_gcam_file gdf lcs start_yr end_yr scenario region_dict agg_level area_factor
             = Inr out"
  shows "length (allregaez out) = length (allregnumber out)
     \<and> length (allregaez out) =
         card (set (gcam_regionnumber out)) + (if agg_level = 2 then 1 else 0)"
proof (cases "agg_level = 2")
  case True
  from read_gcam_file_InrD(6) [OF assms True] obtain p where
    "allregaez out = py_insert (int p - 1) []
        (map np_unique (groupby_lists (gcam_regionnumber out) (gcam_metric out)))"
    by blast
  then have "length (allregaez out) = Suc (card (set (gcam_regionnumber out)))"
    by (simp add: length_py_insert length_groupby_lists)
  moreover have "length (allregnumber out) = Suc (card (set (gcam_regionnumber out)))"
    using read_gcam_file_InrD(3) [OF assms] True by (simp add: length_pd_unique)
  ultimately show ?thesis using True by simp
next
  case False
  from read_gcam_file_InrD(5) [OF assms False]
  have "length (allregaez out) = card (set (gcam_regionnumber out))"
    by (simp add: length_groupby_lists)
  moreover have "length (allregnumber out) = card (set (gcam_regionnumber out))"
    using read_gcam_file_InrD(3) [OF assms] False by (simp add: length_pd_unique)
  ultimately show ?thesis using False by simp
qed

theorem allregaez_length_witness:
  "\<not> isl (read_gcam_file example_table [''forest''] 2000 2010 ''ref'' example_regions 2 1000)
   \<and> length (projr (map_sum id allregaez
        (read_gcam_file example_table [''forest''] 2000 2010 ''ref'' example_regions 2 1000)))
      = 3
   \<and> length (projr (map_sum id allregnumber
        (read_gcam_file example_table [''forest''] 2000 2010 ''ref'' example_regions 2 1000)))
      = 3"
proof -
  let ?r = "read_gcam_file example_table [''forest''] 2000 2010 ''ref'' example_regions 2 1000"
  have ok: "\<not> isl ?r" by code_simp
  then obtain out where out: "?r = Inr out" by (cases ?r) auto
  have n: "map_sum id allregnumber ?r = Inr [1, 11, 30]" by code_simp
  from allregaez_length [OF out] n out ok show ?thesis by simp
qed

text \<open>
  Claim C3, as amended.  Whenever the projection normalizer returns at aggregation level
  2, the array of region names is the sorted list of the distinct region values (as
  strings) and \<^verbatim>\<open>Taiwan\<close>; the per-region lists are those of the region numbers
  present, in ascending order of region number, with one empty list inserted by
  \<^verbatim>\<open>list.insert\<close> at index \<open>p - 1\<close>, where \<open>p\<close> is the first position of the name
  \<^verbatim>\<open>Taiwan\<close> in the sorted array of region names.
\<close>

theorem placeholder_by_name_order:
  assumes "read_gcam_file gdf lcs start_yr end_yr scenario region_dict 2 area_factor = Inr out"
  shows "allreg out =
           map PStr (sort (map pyval_str (pd_unique (map region (rows gdf))) @ [''Taiwan'']))
     \<and> (\<exists>p. first_index (allreg out) (PStr ''Taiwan'') = Inr p
          \<and> allregaez out = py_insert (int p - 1) []
               (map np_unique (groupby_lists (gcam_regionnumber out) (gcam_metric out))))
     \<and> [] \<in> set (allregaez out)"
proof -
  have a: "allreg out =
      map PStr (sort (map pyval_str (pd_unique (map region (rows gdf))) @ [''Taiwan'']))"
    using read_gcam_file_InrD(4) [OF assms] by (simp add: np_sorted_regions_def)
  from read_gcam_file_InrD(6) [OF assms] obtain p where
    p: "first_index (allreg out) (PStr ''Taiwan'') = Inr p"
      "allregaez out = py_insert (int p - 1) []
        (map np_unique (groupby_lists (gcam_regionnumber out) (gcam_metric out)))"
    by blast
  from p(2) have "[] \<in> set (allregaez out)" by (simp add: set_py_insert)
  with a p show ?thesis by blast
qed

theorem placeholder_by_name_order_witness:
  "\<not> isl (read_gcam_file example_table [''forest''] 2000 2010 ''ref'' example_regions 2 1000)
   \<and> map_sum id allreg
        (read_gcam_file example_table [''forest''] 2000 2010 ''ref'' example_regions 2 1000)
      = Inr [PStr ''China'', PStr ''Taiwan'', PStr ''USA'']
   \<and> [] \<in> set (projr (map_sum id allregaez
        (read_gcam_file example_table [''forest''] 2000 2010 ''ref'' example_regions 2 1000)))"
proof -
  let ?r = "read_gcam_file example_table [''forest''] 2000 2010 ''ref'' example_regions 2 1000"
  have ok: "\<not> isl ?r" by code_simp
  then obtain out where out: "?r = Inr out" by (cases ?r) auto
  have s: "sort (map pyval_str (pd_unique (map region (rows example_table))) @ [''Taiwan''])
      = [''China'', ''Taiwan'', ''USA'']" by code_simp
  from placeholder_by_name_order [OF out] s out ok show ?thesis by simp
qed

text \<open>
  Claim C3 as stated fails.  With the regions USA (number 1) and China (number 11) the
  sorted region numbers are 1, 11, 30, so the claim puts the placeholder at index 1,
  immediately before the list of China; the normalizer takes the position from the sorted
  names China, Taiwan, USA and inserts at index 0.
\<close>

theorem placeholder_position_counterexample:
  "map_sum id allregnumber
       (read_gcam_file example_table [''forest''] 2000 2010 ''ref'' example_regions 2 1000)
     = Inr [1, 11, 30]
   \<and> map_sum id allregaez
       (read_gcam_file example_table [''forest''] 2000 2010 ''ref'' example_regions 2 1000)
     = Inr [[], [1], [2]]
   \<and> spec_allregaez [1, 11, 30] [[1], [2]] = [[1], [], [2]]"
  by code_simp

subsection \<open>Base-layer normalizer\<close>

lemma with_log_Inr_iff:
  "snd (with_log lg m f) = Inr y \<longleftrightarrow> (\<exists>x. m = Inr x \<and> snd (f x) = Inr y)"
  by (cases m) (simp_all add: with_log_def)



lemma base_ludata_Some:
  "snd (base_ludata df ls) = Inr (Some raw) \<Longrightarrow>
     \<exists>sel. getitems df ls = Inr sel \<and> raw = as_matrix (frame_len df) sel"
  by (auto simp: base_ludata_def split: sum.splits error.splits)




lemma base_derive_InrD:
  assumes "base_derive c n ludata coords metric_region grid_id water region_metric = Inr out"
  shows "\<exists>raw. ludata = Some raw
           \<and> spat_ludata out =
               map2 (\<lambda>row a. map (\<lambda>x. x / (c_resin c)\<^sup>2 * a) row) raw (cellarea out)
           \<and> celltrunk out =
               map2 (\<lambda>s w. (s + w) / (c_resin c)\<^sup>2) (map sum_list raw) water"
    and "cellarea out =
           map (\<lambda>row. cos (radians (row ! 0)) * (111.32 * 110.57) * (c_resin c)\<^sup>2) coords"
    and "spat_coords out = coords" and "spat_water out = water"
    and "spat_grid_id out = grid_id" and "ngrids out = n"
  using assms
  by (auto simp: base_derive_def Let_def split: option.splits prod.splits)

lemma read_base_InrD:
  assumes "snd (read_base df0 c ls) = Inr out"
  shows "\<exists>ludata coords grid_id water region_metric.
           snd (base_ludata (lower_columns df0) ls) = Inr ludata
         \<and> base_coords (lower_columns df0) = Inr coords
         \<and> series (lower_columns df0) (c_pkey c) = Inr grid_id
         \<and> snd (base_water (lower_columns df0) grid_id) = Inr water
         \<and> base_derive c (frame_len (lower_columns df0)) ludata coords
              (case series (lower_columns df0) ''regaez'' of Inl e \<Rightarrow> None | Inr col \<Rightarrow> Some col)
              grid_id water region_metric = Inr out"
  using assms
  by (simp add: read_base_def Let_def split_def with_log_Inr_iff) blast

lemma read_base_selected:
  assumes "snd (read_base df0 c ls) = Inr out"
  shows "\<exists>sel. getitems (lower_columns df0) ls = Inr sel"
proof -
  from read_base_InrD [OF assms] obtain ludata coords grid_id water region_metric where
    l: "snd (base_ludata (lower_columns df0) ls) = Inr ludata" and
    d: "base_derive c (frame_len (lower_columns df0)) ludata coords
          (case series (lower_columns df0) ''regaez'' of Inl e \<Rightarrow> None | Inr col \<Rightarrow> Some col)
          grid_id water region_metric = Inr out"
    by blast
  from base_derive_InrD(1) [OF d] obtain raw where "ludata = Some raw" by blast
  with l base_ludata_Some show ?thesis by blast
qed

text \<open>Whenever a requested land-cover column is absent, the call ends with an error.\<close>

lemma absent_column_never_returns:
  "getitems (lower_columns df0) ls = Inl e \<Longrightarrow> \<exists>e'. snd (read_base df0 c ls) = Inl e'"
  using read_base_selected [of df0 c ls] by (cases "snd (read_base df0 c ls)") auto



lemma example_base_lower:
  "lower_columns example_base =
     \<lparr>frame_len = 2,
      frame_cols = [(''fid'', [1, 2]), (''latcoord'', [0, 0]), (''loncoord'', [10, 11]),
                    (''region_id'', [30, 4]), (''basin_id'', [7, 7]),
                    (''forest'', [1 / 2, 1 / 4]), (''water'', [1 / 4, 0])]\<rparr>"
proof -
  have "map lower [''FID'', ''Latcoord'', ''Loncoord'', ''region_id'', ''basin_id'', ''Forest'',
      ''water''] = [''fid'', ''latcoord'', ''loncoord'', ''region_id'', ''basin_id'', ''forest'',
      ''water'']"
    by code_simp
  then show ?thesis by (simp add: lower_columns_def example_base_def)
qed

lemma example_config_fields:
  "lower (c_model example_config) = ''gcam''"
  "lower (c_metric example_config) @ ''_id'' = ''basin_id''"
  "c_pkey example_config = ''fid''"
  "c_agg_level example_config = 2"
  "c_resin example_config = 1"
  by code_simp+

lemma as_matrix_2: "as_matrix 2 cs = [map (\<lambda>col. col ! 0) cs, map (\<lambda>col. col ! 1) cs]"
  by (simp add: as_matrix_def numeral_2_eq_2)

lemma example_base_steps:
  "base_coords (lower_columns example_base) = Inr [[0, 10], [0, 11]]"
  "series (lower_columns example_base) ''regaez'' = Inl (KeyError [''regaez''])"
  "series (lower_columns example_base) (c_pkey example_config) = Inr [1, 2]"
  "base_water (lower_columns example_base) [1, 2] = ([], Inr [1 / 4, 0])"
  "base_region_metric (lower_columns example_base) example_config = Inr (Some ([30, 4], [7, 7]))"
  unfolding example_base_lower
  by (simp_all add: base_coords_def getitems_def labelled_def as_matrix_2 series_def
      base_water_def base_region_metric_def bind_err_def example_config_fields)


text \<open>
  Claim C4 against the code.  The table of the example has no column \<^verbatim>\<open>crops\<close>.
  The selection of the land-cover columns raises \<^verbatim>\<open>KeyError\<close>, which
  \<^verbatim>\<open>read_base\<close> catches and logs; the call goes on and ends, with no arrays returned,
  when line 357 reads the unbound name \<^verbatim>\<open>spat_ludata\<close>: the error that leaves the
  call is not the error naming the absent field.
\<close>

theorem read_base_missing_field:
  "read_base example_base example_config [''forest'', ''crops''] =
     ([ErrorFieldsMissing, ErrorLogged (KeyError [''crops''])],
      Inl (UnboundLocalError ''spat_ludata''))"
proof -
  have l: "base_ludata (lower_columns example_base) [''forest'', ''crops''] =
      ([ErrorFieldsMissing, ErrorLogged (KeyError [''crops''])], Inr None)"
    unfolding example_base_lower
    by (simp add: base_ludata_def getitems_def labelled_def)
  show ?thesis
    by (simp add: read_base_def Let_def l example_base_steps [unfolded example_config_fields]
        example_config_fields with_log_def base_derive_def)
qed


end
